theory Spec2Isabelle
  imports Complex_Main "HOL-Library.Multiset"
begin

section \<open>Subtasks (ada\_task\_decomposer.py)\<close>

text \<open>
  Values of Python's dynamically typed dictionaries (\<open>Dict[str, Any]\<close>), as far as the
  modelled code builds and reads them. A dictionary is the list of its items in insertion
  order; \<open>PTime\<close> is a reading of the clock (a \<open>datetime\<close>, or its ISO text), in
  microseconds.
\<close>

datatype pyval =
    PNone | PBool bool | PInt int | PFloat real | PStr string | PTime int
  | PList "pyval list" | PDict "(string \<times> pyval) list"

text \<open>
  The dataclass \<open>SubTask\<close>. The payload \<open>input_data\<close> is opaque to the scheduler, which
  only compares whole subtasks with \<open>==\<close>; its type is a parameter, and HOL equality on it
  stands for Python's \<open>==\<close>.
\<close>

record 'p SubTask =
  task_id :: string
  ion_name :: string
  description :: string
  input_data :: 'p
  priority :: int
  depends_on :: "string list"
  can_parallelize :: bool
  estimated_time_seconds :: int

text \<open>Exceptions that the modelled list and iterator operations can raise.\<close>

datatype error = ValueError | StopIteration

text \<open>Lines written to the console by \<open>print\<close>: the warning names the number of tasks left.\<close>

datatype console_line = WarnUnresolved nat

section \<open>Pattern classifier and subtask builders (ada\_task\_decomposer.py)\<close>

text \<open>The enumeration \<open>TaskPattern\<close>.\<close>

datatype TaskPattern =
    CODEBASE_ANALYSIS | CONTENT_RESEARCH | PROJECT_STATUS | CODE_CLEANUP
  | LEARNING_MATERIALS | QUALITY_ASSESSMENT | REFACTORING | DOCUMENTATION
  | DUPLICATE_DETECTION | DEAD_CODE_ANALYSIS | CODE_ORGANIZATION
  | CONTENT_EXTRACTION | QUIZ_GENERATION | CUSTOM

text \<open>
  Python strings are read as lists of code points below 256 (ASCII and Latin-1), the range
  of \<open>char\<close>. \<open>str.lower\<close> maps A to Z, and the Latin-1 capitals other than the
  multiplication sign, to the letter 32 places up.
\<close>

definition lower_char :: "char \<Rightarrow> char" where
  "lower_char c =
     (let n = (of_char c :: nat)
      in if (65 \<le> n \<and> n \<le> 90) \<or> (192 \<le> n \<and> n \<le> 222 \<and> n \<noteq> 215)
         then char_of (n + 32) else c)"

definition lower :: "string \<Rightarrow> string" where
  "lower s = map lower_char s"

definition startswith :: "string \<Rightarrow> string \<Rightarrow> bool" where
  "startswith s p = (take (length p) s = p)"

text \<open>\<open>sub in s\<close> on strings: \<open>sub\<close> occurs in \<open>s\<close> as a contiguous block.\<close>

fun py_in :: "string \<Rightarrow> string \<Rightarrow> bool" where
  "py_in sub [] = (sub = [])"
| "py_in sub (c # cs) = (startswith (c # cs) sub \<or> py_in sub cs)"

text \<open>\<open>any(word in s for word in words)\<close>\<close>

definition any_in :: "string list \<Rightarrow> string \<Rightarrow> bool" where
  "any_in words s = list_ex (\<lambda>word. py_in word s) words"

text \<open>\<open>TaskDecomposer._identify_pattern\<close>: the checks in the order of the source.\<close>

definition identify_pattern :: "string \<Rightarrow> TaskPattern" where
  "identify_pattern task =
     (let task_lower = lower task in
      if any_in [''duplicate'', ''duplicates'', ''repeated'', ''redundant'', ''copy'', ''copies'']
           task_lower
         \<or> any_in [''find duplicate'', ''duplicate code'', ''duplicate patterns'',
                    ''similar code''] task_lower
      then DUPLICATE_DETECTION
      else if any_in [''dead code'', ''unused code'', ''unreachable'', ''identify unused'',
                      ''find unused''] task_lower
         \<or> ((py_in ''unused'' task_lower \<or> py_in ''dead'' task_lower)
             \<and> py_in ''code'' task_lower)
      then DEAD_CODE_ANALYSIS
      else if any_in [''code organization'', ''organize code'', ''group code'',
                      ''structure code'', ''analyze organization'',
                      ''analyze code organization''] task_lower
         \<or> (py_in ''code'' task_lower
             \<and> any_in [''group'', ''structure'', ''arrange''] task_lower)
      then CODE_ORGANIZATION
      else if py_in ''quiz'' task_lower \<or> py_in ''test questions'' task_lower
      then QUIZ_GENERATION
      else if any_in [''questions'', ''teach'', ''explain'', ''lesson'', ''study'', ''learn'']
                task_lower
         \<and> \<not> any_in [''research'', ''search''] task_lower
      then LEARNING_MATERIALS
      else if any_in [''analyze'', ''audit'', ''assess'', ''review''] task_lower
         \<and> any_in [''codebase'', ''code'', ''repository'', ''project'', ''files''] task_lower
      then CODEBASE_ANALYSIS
      else if any_in [''status'', ''where am i'', ''what was i'', ''context'', ''working on'',
                      ''yesterday''] task_lower
      then PROJECT_STATUS
      else if any_in [''clean'', ''cleanup'', ''tidy''] task_lower
      then CODE_CLEANUP
      else if any_in [''refactor'', ''restructure'', ''improve code'', ''optimize code'',
                      ''refactoring plan'', ''generate refactoring''] task_lower
      then REFACTORING
      else if any_in [''quality'', ''score'', ''rate'', ''evaluate''] task_lower
         \<and> any_in [''content'', ''video'', ''article'', ''resource''] task_lower
      then QUALITY_ASSESSMENT
      else if any_in [''extract'', ''pull content'', ''get content'', ''transcript''] task_lower
      then CONTENT_EXTRACTION
      else if any_in [''document'', ''docs'', ''readme'', ''guide''] task_lower
      then DOCUMENTATION
      else if any_in [''research'', ''search'', ''learn about'', ''discover'', ''look up'']
                task_lower
      then CONTENT_RESEARCH
      else if py_in ''find'' task_lower
      then CONTENT_RESEARCH
      else CUSTOM)"


text \<open>Truth value of a Python object, as \<open>or\<close> reads it.\<close>

fun truthy :: "pyval \<Rightarrow> bool" where
  "truthy PNone = False"
| "truthy (PBool b) = b"
| "truthy (PInt n) = (n \<noteq> 0)"
| "truthy (PFloat x) = (x \<noteq> 0)"
| "truthy (PStr s) = (s \<noteq> [])"
| "truthy (PTime t) = True"
| "truthy (PList vs) = (vs \<noteq> [])"
| "truthy (PDict kvs) = (kvs \<noteq> [])"

text \<open>\<open>_generate_task_id\<close>: the counter is incremented and formatted by \<open>:03d\<close>, zero-padded
  to at least three digits. The counter is state of the decomposer: it is passed in and
  returned.\<close>

fun decimal :: "nat \<Rightarrow> string" where
  "decimal n =
     (if n < 10 then [char_of (48 + n)]
      else decimal (n div 10) @ [char_of (48 + n mod 10)])"

declare decimal.simps [simp del]

definition pad3 :: "nat \<Rightarrow> string" where
  "pad3 n = replicate (3 - length (decimal n)) (CHR ''0'') @ decimal n"

definition generate_task_id :: "string \<Rightarrow> nat \<Rightarrow> string \<times> nat" where
  "generate_task_id ion task_counter =
     (ion @ ''_'' @ pad3 (task_counter + 1), task_counter + 1)"

text \<open>
  \<open>_extract_path\<close>. The regular expression searched for is a quote character, one or more
  characters that are not quotes, and a quote character; the group is the text between.
  The leftmost match is returned; at a given opening quote the run of non-quotes must be
  the longest one, since it has to be followed by a quote.
\<close>

definition is_quote :: "char \<Rightarrow> bool" where
  "is_quote c = (c = CHR 0x22 \<or> c = CHR 0x27)"

fun re_search_quoted :: "string \<Rightarrow> string option" where
  "re_search_quoted [] = None"
| "re_search_quoted (c # cs) =
     (if is_quote c \<and> takeWhile (\<lambda>x. \<not> is_quote x) cs \<noteq> []
         \<and> dropWhile (\<lambda>x. \<not> is_quote x) cs \<noteq> []
      then Some (takeWhile (\<lambda>x. \<not> is_quote x) cs)
      else re_search_quoted cs)"

definition extract_path :: "string \<Rightarrow> string option" where
  "extract_path task =
     (if py_in ''learnqwest'' (lower task) then Some ''./'' else re_search_quoted task)"

text \<open>\<open>context.get("path") or self._extract_path(task) or "./"\<close>\<close>

definition path_of :: "(string \<rightharpoonup> pyval) \<Rightarrow> string \<Rightarrow> pyval" where
  "path_of context task =
     (let fallback = (case extract_path task of
                        None \<Rightarrow> PStr ''./''
                      | Some p \<Rightarrow> if p \<noteq> [] then PStr p else PStr ''./'')
      in case context ''path'' of
           None \<Rightarrow> fallback
         | Some v \<Rightarrow> if truthy v then v else fallback)"

text \<open>\<open>_decompose_codebase_analysis\<close> and \<open>_decompose_duplicate_detection\<close>, the builders
  that \<open>self.patterns\<close> binds to \<open>CODEBASE_ANALYSIS\<close> and \<open>DUPLICATE_DETECTION\<close>.\<close>

definition decompose_codebase_analysis ::
  "string \<Rightarrow> (string \<rightharpoonup> pyval) \<Rightarrow> nat \<Rightarrow> (string \<times> pyval) list SubTask list \<times> nat" where
  "decompose_codebase_analysis task context task_counter =
     (let path = path_of context task;
          (dup_id, c1) = generate_task_id ''duplicate-detector'' task_counter;
          dup_task = \<lparr>task_id = dup_id, ion_name = ''duplicate-detector'',
             description = ''Find duplicate code patterns'',
             input_data = [(''path'', path), (''min_lines'', PInt 6),
                           (''output'', PStr ''duplicates.json'')],
             priority = 2, depends_on = [], can_parallelize = True,
             estimated_time_seconds = 5\<rparr>;
          (dead_id, c2) = generate_task_id ''dead-code-eliminator'' c1;
          dead_task = \<lparr>task_id = dead_id, ion_name = ''dead-code-eliminator'',
             description = ''Identify unused code'',
             input_data = [(''path'', path), (''output'', PStr ''dead_code.json'')],
             priority = 2, depends_on = [], can_parallelize = True,
             estimated_time_seconds = 5\<rparr>;
          (group_id, c3) = generate_task_id ''code-grouper'' c2;
          group_task = \<lparr>task_id = group_id, ion_name = ''code-grouper'',
             description = ''Analyze code organization'',
             input_data = [(''path'', path), (''output'', PStr ''groups.json'')],
             priority = 3, depends_on = [], can_parallelize = True,
             estimated_time_seconds = 8\<rparr>;
          (refactor_id, c4) = generate_task_id ''refactor-planner'' c3;
          refactor_task = \<lparr>task_id = refactor_id, ion_name = ''refactor-planner'',
             description = ''Generate refactoring recommendations'',
             input_data = [(''path'', path), (''duplicates'', PStr ''duplicates.json''),
                           (''dead_code'', PStr ''dead_code.json''),
                           (''groups'', PStr ''groups.json''),
                           (''output'', PStr ''refactor_plan.json'')],
             priority = 1,
             depends_on = [task_id dup_task, task_id dead_task, task_id group_task],
             can_parallelize = False, estimated_time_seconds = 10\<rparr>
      in ([dup_task, dead_task, group_task, refactor_task], c4))"

definition decompose_duplicate_detection ::
  "string \<Rightarrow> (string \<rightharpoonup> pyval) \<Rightarrow> nat \<Rightarrow> (string \<times> pyval) list SubTask list \<times> nat" where
  "decompose_duplicate_detection task context task_counter =
     (let path = path_of context task;
          (dup_id, c1) = generate_task_id ''duplicate-detector'' task_counter;
          dup_task = \<lparr>task_id = dup_id, ion_name = ''duplicate-detector'',
             description = ''Find duplicate code patterns'',
             input_data = [(''path'', path), (''min_lines'', PInt 6),
                           (''output'', PStr ''duplicates.json'')],
             priority = 1, depends_on = [], can_parallelize = True,
             estimated_time_seconds = 5\<rparr>
      in ([dup_task], c1))"


section \<open>The wave scheduler (ada\_coordinator.py, ExecutionStrategy)\<close>

text \<open>
  The test of the inner loop of \<open>create_execution_plan\<close>:
  \<open>not task.depends_on\<close>, or else \<open>all(dep in completed for dep in task.depends_on)\<close>.
\<close>

definition is_ready :: "string set \<Rightarrow> 'p SubTask \<Rightarrow> bool" where
  "is_ready completed task =
     (if depends_on task = [] then True
      else list_all (\<lambda>dep. dep \<in> completed) (depends_on task))"

text \<open>\<open>for task in remaining: ... ready.append(task)\<close>\<close>

definition find_ready :: "string set \<Rightarrow> 'p SubTask list \<Rightarrow> 'p SubTask list" where
  "find_ready completed remaining = filter (is_ready completed) remaining"

text \<open>
  \<open>for task in ready: completed.add(task.ion_name); remaining.remove(task)\<close>.
  \<open>list.remove\<close> deletes the first element equal to its argument and raises
  \<open>ValueError\<close> when there is none.
\<close>

fun mark_completed ::
  "'p SubTask list \<Rightarrow> string set \<Rightarrow> 'p SubTask list \<Rightarrow> error + (string set \<times> 'p SubTask list)"
where
  "mark_completed [] completed remaining = Inr (completed, remaining)"
| "mark_completed (task # ready) completed remaining =
     (if task \<in> set remaining
      then mark_completed ready (insert (ion_name task) completed) (remove1 task remaining)
      else Inl ValueError)"

lemma mark_completed_length:
  "mark_completed ready completed remaining = Inr (completed', remaining') \<Longrightarrow>
   length remaining' + length ready = length remaining"
proof (induction ready arbitrary: completed remaining)
  case Nil
  then show ?case by simp
next
  case (Cons task ready)
  from Cons.prems have mem: "task \<in> set remaining"
    by (simp split: if_splits)
  with Cons.prems have
    "mark_completed ready (insert (ion_name task) completed) (remove1 task remaining)
       = Inr (completed', remaining')"
    by simp
  from Cons.IH [OF this] have "length remaining' + length ready = length (remove1 task remaining)" .
  moreover from mem have "length remaining > 0" by (cases remaining) auto
  ultimately show ?case using mem by (simp add: length_remove1)
qed

text \<open>
  The \<open>while remaining:\<close> loop. The accumulators are the local variables \<open>completed\<close>,
  \<open>remaining\<close> and \<open>waves\<close> of the source, and the console output so far.
\<close>

function plan_loop ::
  "string set \<Rightarrow> 'p SubTask list \<Rightarrow> 'p SubTask list list \<Rightarrow> console_line list
     \<Rightarrow> error + ('p SubTask list list \<times> console_line list)"
where
  "plan_loop completed remaining waves out =
     (if remaining = [] then Inr (waves, out)
      else if find_ready completed remaining = [] then
        (case mark_completed remaining completed remaining of
           Inl e \<Rightarrow> Inl e
         | Inr (completed', remaining') \<Rightarrow>
             plan_loop completed' remaining' (waves @ [remaining])
               (out @ [WarnUnresolved (length remaining)]))
      else
        (case mark_completed (find_ready completed remaining) completed remaining of
           Inl e \<Rightarrow> Inl e
         | Inr (completed', remaining') \<Rightarrow>
             plan_loop completed' remaining' (waves @ [find_ready completed remaining]) out))"
  by pat_completeness auto
termination
proof (relation "measure (\<lambda>(completed, remaining, waves, out). length remaining)")
  show "wf (measure (\<lambda>(completed, remaining, waves, out). length remaining))"
    by simp
next
  fix completed :: "string set" and remaining :: "'p SubTask list"
    and waves :: "'p SubTask list list" and out :: "console_line list"
    and x2 :: "string set \<times> 'p SubTask list" and completed' remaining'
  assume ne: "remaining \<noteq> []"
    and mc: "mark_completed remaining completed remaining = Inr x2"
    and x2: "(completed', remaining') = x2"
  from mc x2 have "length remaining' + length remaining = length remaining"
    using mark_completed_length [of remaining completed remaining completed' remaining'] by simp
  with ne show "((completed', remaining', waves @ [remaining],
                   out @ [WarnUnresolved (length remaining)]),
                 (completed, remaining, waves, out))
                \<in> measure (\<lambda>(completed, remaining, waves, out). length remaining)"
    by simp
next
  fix completed :: "string set" and remaining :: "'p SubTask list"
    and waves :: "'p SubTask list list" and out :: "console_line list"
    and x2 :: "string set \<times> 'p SubTask list" and completed' remaining'
  assume ne: "find_ready completed remaining \<noteq> []"
    and mc: "mark_completed (find_ready completed remaining) completed remaining = Inr x2"
    and x2: "(completed', remaining') = x2"
  from mc x2 have "length remaining' + length (find_ready completed remaining) = length remaining"
    using mark_completed_length
      [of "find_ready completed remaining" completed remaining completed' remaining'] by simp
  with ne show "((completed', remaining', waves @ [find_ready completed remaining], out),
                 (completed, remaining, waves, out))
                \<in> measure (\<lambda>(completed, remaining, waves, out). length remaining)"
    by (cases "find_ready completed remaining") simp_all
qed

declare plan_loop.simps [simp del]

definition create_execution_plan ::
  "'p SubTask list \<Rightarrow> error + ('p SubTask list list \<times> console_line list)" where
  "create_execution_plan subtasks =
     (if subtasks = [] then Inr ([], []) else plan_loop {} subtasks [] [])"

section \<open>Parallel groups (ada\_task\_decomposer.py, TaskDecomposer)\<close>

text \<open>\<open>next(st for st in subtasks if st.task_id == task_id)\<close>: the first subtask with the
  identity; an exhausted generator raises \<open>StopIteration\<close>.\<close>

fun first_with_id :: "'p SubTask list \<Rightarrow> string \<Rightarrow> error + 'p SubTask" where
  "first_with_id subtasks tid =
     (case find (\<lambda>st. task_id st = tid) subtasks of
        None \<Rightarrow> Inl StopIteration
      | Some st \<Rightarrow> Inr st)"

text \<open>The \<open>for task_id in list(remaining)\<close> loop that builds \<open>current_group\<close>.\<close>

fun current_group_of ::
  "'p SubTask list \<Rightarrow> string set \<Rightarrow> string list \<Rightarrow> error + string list" where
  "current_group_of subtasks completed [] = Inr []"
| "current_group_of subtasks completed (tid # tids) =
     (case first_with_id subtasks tid of
        Inl e \<Rightarrow> Inl e
      | Inr task \<Rightarrow>
          (case current_group_of subtasks completed tids of
             Inl e \<Rightarrow> Inl e
           | Inr later \<Rightarrow>
               Inr (if list_all (\<lambda>dep. dep \<in> completed) (depends_on task)
                    then tid # later else later)))"

lemma current_group_of_subset:
  "current_group_of subtasks completed tids = Inr grp \<Longrightarrow> set grp \<subseteq> set tids"
  by (induction tids arbitrary: grp) (auto split: sum.splits if_splits option.splits)

text \<open>
  The \<open>while remaining:\<close> loop of \<open>_calculate_parallel_groups\<close>. The source keeps
  \<open>remaining\<close> as a Python set and walks \<open>list(remaining)\<close>, whose order Python leaves
  unspecified; the model keeps it as a duplicate-free list in the order of the subtasks.
  \<open>if not current_group: break\<close> ends the loop with the groups found so far.
\<close>

function groups_loop ::
  "'p SubTask list \<Rightarrow> string set \<Rightarrow> string list \<Rightarrow> string list list
     \<Rightarrow> error + string list list"
where
  "groups_loop subtasks completed remaining groups =
     (if remaining = [] then Inr groups
      else
        (case current_group_of subtasks completed remaining of
           Inl e \<Rightarrow> Inl e
         | Inr current_group \<Rightarrow>
             if current_group = [] then Inr groups
             else groups_loop subtasks (completed \<union> set current_group)
                    (filter (\<lambda>tid. tid \<notin> set current_group) remaining)
                    (groups @ [current_group])))"
  by pat_completeness auto
termination
proof (relation "measure (\<lambda>(subtasks, completed, remaining, groups). length remaining)")
  show "wf (measure (\<lambda>(subtasks, completed, remaining, groups). length remaining))"
    by simp
next
  fix subtasks :: "'p SubTask list" and completed :: "string set"
    and remaining :: "string list" and groups :: "string list list"
    and current_group :: "string list"
  assume cg: "current_group_of subtasks completed remaining = Inr current_group"
    and ne: "current_group \<noteq> []"
  from ne obtain tid where tid: "tid \<in> set current_group"
    by (cases current_group) auto
  with current_group_of_subset [OF cg] have "tid \<in> set remaining" by blast
  with tid have
    "length (filter (\<lambda>tid. tid \<notin> set current_group) remaining) < length remaining"
    by (intro length_filter_less [of tid]) auto
  then show "((subtasks, completed \<union> set current_group,
            filter (\<lambda>tid. tid \<notin> set current_group) remaining, groups @ [current_group]),
           (subtasks, completed, remaining, groups))
          \<in> measure (\<lambda>(subtasks, completed, remaining, groups). length remaining)"
    by simp
qed

declare groups_loop.simps [simp del]

definition calculate_parallel_groups :: "'p SubTask list \<Rightarrow> error + string list list" where
  "calculate_parallel_groups subtasks =
     groups_loop subtasks {} (remdups (map task_id subtasks)) []"




subsection \<open>Example plans\<close>

definition mk_subtask ::
  "string \<Rightarrow> string \<Rightarrow> string list \<Rightarrow> (string \<times> pyval) list SubTask" where
  "mk_subtask tid ion deps =
     \<lparr>task_id = tid, ion_name = ion, description = ''work'', input_data = [],
      priority = 3, depends_on = deps, can_parallelize = True,
      estimated_time_seconds = 5\<rparr>"

text \<open>An acyclic chain: parse needs fetch, report needs parse.\<close>

definition dependency_chain :: "(string \<times> pyval) list SubTask list" where
  "dependency_chain =
     [mk_subtask ''fetch_001'' ''fetch'' [],
      mk_subtask ''parse_002'' ''parse'' [''fetch_001''],
      mk_subtask ''report_003'' ''report'' [''parse_002'']]"


subsection \<open>Nothing is lost or duplicated\<close>


lemma mark_completed_mset:
  "mset ready \<subseteq># mset remaining \<Longrightarrow>
   \<exists>remaining'. mark_completed ready completed remaining
        = Inr (completed \<union> ion_name ` set ready, remaining')
      \<and> mset remaining' = mset remaining - mset ready"
proof (induction ready arbitrary: completed remaining)
  case Nil
  then show ?case by simp
next
  case (Cons task ready)
  from Cons.prems have mem: "task \<in> set remaining"
    by (metis mset.simps(2) insert_subset_eq_iff set_mset_mset)
  from Cons.prems have "mset ready \<subseteq># mset (remove1 task remaining)"
    by (simp add: insert_subset_eq_iff)
  from Cons.IH [OF this, of "insert (ion_name task) completed"]
  obtain remaining' where
    mc: "mark_completed ready (insert (ion_name task) completed) (remove1 task remaining)
          = Inr (insert (ion_name task) completed \<union> ion_name ` set ready, remaining')"
    and ms: "mset remaining' = mset (remove1 task remaining) - mset ready"
    by blast
  from mem mc have
    "mark_completed (task # ready) completed remaining
       = Inr (completed \<union> ion_name ` set (task # ready), remaining')"
    by simp
  moreover from ms have "mset remaining' = mset remaining - mset (task # ready)"
    by simp
  ultimately show ?case by blast
qed

lemma find_ready_submset: "mset (find_ready completed remaining) \<subseteq># mset remaining"
  by (simp add: find_ready_def)

lemma plan_loop_mset:
  "\<exists>waves' out'. plan_loop completed remaining waves out = Inr (waves', out')
     \<and> mset (concat waves') = mset (concat waves) + mset remaining"
proof (induction completed remaining waves out rule: plan_loop.induct)
  case (1 completed remaining waves out)
  show ?case
  proof (cases "remaining = []")
    case True
    then show ?thesis by (simp add: plan_loop.simps)
  next
    case ne: False
    show ?thesis
    proof (cases "find_ready completed remaining = []")
      case stalled: True
      from mark_completed_mset [of remaining remaining completed]
      obtain remaining' where
        mc: "mark_completed remaining completed remaining
              = Inr (completed \<union> ion_name ` set remaining, remaining')"
        and ms: "mset remaining' = mset remaining - mset remaining"
        by auto
      from "1.IH"(1) [OF ne stalled mc refl]
      obtain waves' out' where
        r: "plan_loop (completed \<union> ion_name ` set remaining) remaining'
              (waves @ [remaining]) (out @ [WarnUnresolved (length remaining)])
            = Inr (waves', out')"
        and m: "mset (concat waves') = mset (concat (waves @ [remaining])) + mset remaining'"
        by blast
      from ne stalled mc r have
        "plan_loop completed remaining waves out = Inr (waves', out')"
        by (subst plan_loop.simps) simp
      moreover from m ms have
        "mset (concat waves') = mset (concat waves) + mset remaining"
        by simp
      ultimately show ?thesis by blast
    next
      case progress: False
      let ?ready = "find_ready completed remaining"
      from mark_completed_mset [OF find_ready_submset, of completed remaining completed]
      obtain remaining' where
        mc: "mark_completed ?ready completed remaining
              = Inr (completed \<union> ion_name ` set ?ready, remaining')"
        and ms: "mset remaining' = mset remaining - mset ?ready"
        by auto
      from "1.IH"(2) [OF ne progress mc refl]
      obtain waves' out' where
        r: "plan_loop (completed \<union> ion_name ` set ?ready) remaining'
              (waves @ [?ready]) out = Inr (waves', out')"
        and m: "mset (concat waves') = mset (concat (waves @ [?ready])) + mset remaining'"
        by blast
      from ne progress mc r have
        "plan_loop completed remaining waves out = Inr (waves', out')"
        by (subst plan_loop.simps) simp
      moreover from m ms find_ready_submset [of completed remaining] have
        "mset (concat waves') = mset (concat waves) + mset remaining"
        by (simp add: subset_mset.add_diff_inverse)
      ultimately show ?thesis by blast
    qed
  qed
qed


subsection \<open>Subtasks that never become eligible\<close>
















text \<open>
  C10. For every input list, whatever its dependencies, \<open>create_execution_plan\<close> returns
  (it raises nothing), and the concatenation of the returned waves is a permutation of the
  input: every subtask is in exactly one wave, as often as it is in the input, and none is
  dropped.
\<close>

theorem create_execution_plan_permutation:
  "\<exists>waves out. create_execution_plan subtasks = Inr (waves, out)
     \<and> mset (concat waves) = mset subtasks"
proof (cases "subtasks = []")
  case True
  then show ?thesis by (simp add: create_execution_plan_def)
next
  case False
  from plan_loop_mset [of "{}" subtasks "[]" "[]"] False show ?thesis
    by (simp add: create_execution_plan_def)
qed

text \<open>
  C1. The scheduler records finished work under \<open>ion_name\<close> and tests dependencies,
  which are task identities, against that record. On the acyclic chain fetch, parse,
  report (every dependency names a subtask of the list) no dependency is ever found
  finished: after the first wave the loop gives up, and report is put into the same wave
  as parse, on which it depends.
\<close>

theorem create_execution_plan_chain_same_wave:
  "create_execution_plan dependency_chain =
     Inr ([[mk_subtask ''fetch_001'' ''fetch'' []],
           [mk_subtask ''parse_002'' ''parse'' [''fetch_001''],
            mk_subtask ''report_003'' ''report'' [''parse_002'']]],
          [WarnUnresolved 2])"
  by (simp add: create_execution_plan_def dependency_chain_def plan_loop.simps
        find_ready_def is_ready_def mk_subtask_def)

text \<open>The decomposer's own partition of the same chain, which tracks task identities,
  has one group per subtask.\<close>

lemma calculate_parallel_groups_chain:
  "calculate_parallel_groups dependency_chain
     = Inr [[''fetch_001''], [''parse_002''], [''report_003'']]"
  by (simp add: calculate_parallel_groups_def dependency_chain_def groups_loop.simps
        mk_subtask_def)





section \<open>The codebase-analysis scenario\<close>

lemma path_of_analyze_codebase:
  "path_of Map.empty ''Analyze the codebase'' = PStr ''./''"
  by code_simp

lemma path_of_analyze_duplicates:
  "path_of Map.empty ''Analyze the codebase for duplicates and dead code'' = PStr ''./''"
  by code_simp

text \<open>
  C5, as stated, fails at its first step: the text contains the word duplicate, which the
  classifier tests before anything else.
\<close>

theorem identify_pattern_not_codebase_analysis:
  "identify_pattern ''Analyze the codebase for duplicates and dead code''
     \<noteq> CODEBASE_ANALYSIS"
  by code_simp

text \<open>
  C5, amended. The text "Analyze the codebase for duplicates and dead code" is classified
  as duplicate detection; the builder of that pattern yields exactly one subtask, without
  dependencies, and the scheduler returns one wave holding it. A text that reaches the
  codebase-analysis pattern, such as "Analyze the codebase", gets exactly four subtasks,
  the first three without dependencies and the fourth depending on those three, and the
  scheduler returns two waves, the first three subtasks and then the fourth (the second
  wave through the fallback that prints the warning). This holds for every value of the
  decomposer's task counter and an empty context.
\<close>

theorem codebase_analysis_scenario:
  "identify_pattern ''Analyze the codebase for duplicates and dead code'' = DUPLICATE_DETECTION
   \<and> (case decompose_duplicate_detection
            ''Analyze the codebase for duplicates and dead code'' Map.empty n of
         (subtasks, c) \<Rightarrow>
           length subtasks = 1
           \<and> map depends_on subtasks = [[]]
           \<and> create_execution_plan subtasks = Inr ([subtasks], []))
   \<and> identify_pattern ''Analyze the codebase'' = CODEBASE_ANALYSIS
   \<and> (case decompose_codebase_analysis ''Analyze the codebase'' Map.empty n of
         (subtasks, c) \<Rightarrow>
           length subtasks = 4
           \<and> map depends_on (take 3 subtasks) = [[], [], []]
           \<and> depends_on (subtasks ! 3) = map task_id (take 3 subtasks)
           \<and> create_execution_plan subtasks
               = Inr ([take 3 subtasks, drop 3 subtasks], [WarnUnresolved 1]))"
proof -
  have "identify_pattern ''Analyze the codebase for duplicates and dead code''
          = DUPLICATE_DETECTION"
    by code_simp
  moreover have "identify_pattern ''Analyze the codebase'' = CODEBASE_ANALYSIS"
    by code_simp
  moreover have
    "case decompose_duplicate_detection
            ''Analyze the codebase for duplicates and dead code'' Map.empty n of
       (subtasks, c) \<Rightarrow>
         length subtasks = 1
         \<and> map depends_on subtasks = [[]]
         \<and> create_execution_plan subtasks = Inr ([subtasks], [])"
    by (simp add: decompose_duplicate_detection_def generate_task_id_def
          path_of_analyze_duplicates Let_def create_execution_plan_def plan_loop.simps
          find_ready_def is_ready_def)
  moreover have
    "case decompose_codebase_analysis ''Analyze the codebase'' Map.empty n of
       (subtasks, c) \<Rightarrow>
         length subtasks = 4
         \<and> map depends_on (take 3 subtasks) = [[], [], []]
         \<and> depends_on (subtasks ! 3) = map task_id (take 3 subtasks)
         \<and> create_execution_plan subtasks
             = Inr ([take 3 subtasks, drop 3 subtasks], [WarnUnresolved 1])"
    by (simp add: decompose_codebase_analysis_def generate_task_id_def
          path_of_analyze_codebase Let_def create_execution_plan_def plan_loop.simps
          find_ready_def is_ready_def)
  ultimately show ?thesis by blast
qed

section \<open>The adaptive router (ada\_orchestrator.py, RoutingSpine)\<close>

text \<open>The enumerations \<open>ContentType\<close> and \<open>AgentCapability\<close> and the dataclass
  \<open>AgentRoute\<close>; the float \<open>success_rate\<close> is read as a real number.\<close>

datatype ContentType =
  YOUTUBE_VIDEO | CODE_FILE | DOCUMENT | QUESTION | SEARCH_QUERY | IMAGE | UNKNOWN

datatype AgentCapability = SEARCH | ANALYZE | GENERATE | ASSESS | REFACTOR | EXPLAIN

record AgentRoute =
  agent_name :: string
  handles_content :: "ContentType list"
  capabilities :: "AgentCapability list"
  priority :: int
  success_rate :: real

text \<open>\<open>str.strip\<close> removes the white space at both ends (for code points below 256: the
  control characters 9 to 13 and 28 to 31, the space, 133 and 160); \<open>str.endswith\<close>.\<close>

definition is_space :: "char \<Rightarrow> bool" where
  "is_space c =
     (let n = (of_char c :: nat)
      in (9 \<le> n \<and> n \<le> 13) \<or> (28 \<le> n \<and> n \<le> 32) \<or> n = 133 \<or> n = 160)"

definition strip :: "string \<Rightarrow> string" where
  "strip s = rev (dropWhile is_space (rev (dropWhile is_space s)))"

definition endswith :: "string \<Rightarrow> string \<Rightarrow> bool" where
  "endswith s p = (length p \<le> length s \<and> drop (length s - length p) s = p)"

text \<open>\<open>RoutingSpine.detect_content_type\<close> and \<open>detect_required_capability\<close>.\<close>

definition detect_content_type :: "string \<Rightarrow> ContentType" where
  "detect_content_type content =
     (let content_lower = lower content in
      if py_in ''youtube.com'' content_lower \<or> py_in ''youtu.be'' content_lower
      then YOUTUBE_VIDEO
      else if any_in [''.py'', ''.ts'', ''.js'', ''.tsx'', ''.jsx'', ''.java'', ''.go'', ''.rs'']
                content_lower
      then CODE_FILE
      else if any_in [''def '', ''function '', ''class '', ''import '', ''const '', ''let '',
                      ''var ''] content
      then CODE_FILE
      else if any_in [''find'', ''search'', ''look for'', ''where is'', ''how to find'']
                content_lower
      then SEARCH_QUERY
      else if endswith (strip content) ''?''
           \<or> list_ex (startswith content_lower)
                 [''what'', ''how'', ''why'', ''when'', ''where'', ''who'']
      then QUESTION
      else if length content > 500
      then DOCUMENT
      else UNKNOWN)"

definition detect_required_capability :: "string \<Rightarrow> AgentCapability" where
  "detect_required_capability content =
     (let content_lower = lower content in
      if any_in [''search'', ''find'', ''look for''] content_lower then SEARCH
      else if any_in [''analyze'', ''assess'', ''evaluate'', ''review''] content_lower
      then ANALYZE
      else if any_in [''generate'', ''create'', ''write'', ''build'', ''make''] content_lower
      then GENERATE
      else if any_in [''refactor'', ''improve'', ''optimize'', ''fix''] content_lower
      then REFACTOR
      else if any_in [''explain'', ''what is'', ''how does'', ''why''] content_lower
      then EXPLAIN
      else ANALYZE)"

text \<open>The loop of \<open>route\<close> over \<open>self.routes\<close> that collects \<open>(agent_name, score)\<close>.\<close>

fun find_matches ::
  "ContentType \<Rightarrow> AgentCapability \<Rightarrow> AgentRoute list \<Rightarrow> (string \<times> real) list" where
  "find_matches content_type capability [] = []"
| "find_matches content_type capability (route # routes) =
     (let type_match = content_type \<in> set (handles_content route);
          capability_match = capability \<in> set (capabilities route)
      in if type_match \<or> capability_match
         then (let score = of_int (priority route) * success_rate route;
                   score = (if type_match \<and> capability_match then score * 2 else score)
               in (agent_name route, score) # find_matches content_type capability routes)
         else find_matches content_type capability routes)"

text \<open>\<open>RoutingSpine.update_success_rate\<close>: the first route of the agent is updated, then
  \<open>break\<close>. The list of routes is state of the router: it is passed in and returned.\<close>

fun update_success_rate :: "AgentRoute list \<Rightarrow> string \<Rightarrow> bool \<Rightarrow> AgentRoute list" where
  "update_success_rate [] name success = []"
| "update_success_rate (route # routes) name success =
     (if agent_name route = name
      then (let alpha = 0.1 in
            route\<lparr>success_rate :=
               alpha * (if success then 1.0 else 0.0) + (1 - alpha) * success_rate route\<rparr>)
           # routes
      else route # update_success_rate routes name success)"

text \<open>\<open>list.sort(key=..., reverse=True)\<close>: Python reverses the list, sorts it stably in
  ascending order of the key and reverses the result.\<close>

definition sort_reverse :: "('a \<Rightarrow> 'k::linorder) \<Rightarrow> 'a list \<Rightarrow> 'a list" where
  "sort_reverse key xs = rev (sort_key key (rev xs))"

text \<open>\<open>RoutingSpine.route\<close>\<close>

definition route :: "AgentRoute list \<Rightarrow> string \<Rightarrow> string list" where
  "route routes content =
     (let content_type = detect_content_type content;
          capability = detect_required_capability content;
          matches = sort_reverse snd (find_matches content_type capability routes);
          agents = map fst matches
      in if agents = [] then [''general-learning-agent''] else agents)"

text \<open>The routes that \<open>_register_default_routes\<close> registers, in registration order.\<close>

definition default_routes :: "AgentRoute list" where
  "default_routes =
     [\<lparr>agent_name = ''omnisearch'', handles_content = [SEARCH_QUERY, QUESTION],
        capabilities = [SEARCH], priority = 10, success_rate = 1\<rparr>,
      \<lparr>agent_name = ''quality-assessor'', handles_content = [DOCUMENT, CODE_FILE],
        capabilities = [ASSESS, ANALYZE], priority = 8, success_rate = 1\<rparr>,
      \<lparr>agent_name = ''duplicate-detector-ion'', handles_content = [CODE_FILE],
        capabilities = [ANALYZE], priority = 5, success_rate = 1\<rparr>,
      \<lparr>agent_name = ''refactor-planner-ion'', handles_content = [CODE_FILE],
        capabilities = [REFACTOR, ANALYZE], priority = 5, success_rate = 1\<rparr>,
      \<lparr>agent_name = ''claude-code'', handles_content = [CODE_FILE, QUESTION],
        capabilities = [GENERATE, EXPLAIN, REFACTOR], priority = 9, success_rate = 1\<rparr>,
      \<lparr>agent_name = ''youtube-extractor'', handles_content = [YOUTUBE_VIDEO],
        capabilities = [ANALYZE, GENERATE], priority = 10, success_rate = 1\<rparr>]"

subsection \<open>Ranking\<close>






lemma detect_empty:
  "detect_content_type [] = UNKNOWN" "detect_required_capability [] = ANALYZE"
  by code_simp+

lemma route_default_empty:
  "route default_routes [] =
     [''youtube-extractor'', ''quality-assessor'', ''duplicate-detector-ion'',
      ''refactor-planner-ion'']"
  by (simp add: route_def detect_empty default_routes_def sort_reverse_def)

lemma route_no_routes: "route [] content = [''general-learning-agent'']"
  by (simp add: route_def sort_reverse_def)



subsection \<open>Smoothing\<close>







section \<open>The result synthesizer (ada\_output\_synthesizer.py)\<close>

text \<open>An exception, with the text that \<open>str(e)\<close> gives.\<close>

datatype exn = Exception string

text \<open>
  The dataclass \<open>IonOutput\<close>. Clock readings (\<open>datetime\<close> values) are integers,
  in microseconds. \<open>success\<close> holds the truth value of what the source stores.
\<close>

record IonOutput =
  ion_name :: string
  description :: string
  success :: bool
  result :: pyval
  execution_time_ms :: int
  timestamp :: int
  error :: "string option"

text \<open>\<open>OutputSynthesizer._build_metadata\<close>; \<open>now\<close> is the reading of
  \<open>datetime.now()\<close> that the source formats into the entry \<open>timestamp\<close>.\<close>

definition build_metadata :: "int \<Rightarrow> IonOutput list \<Rightarrow> (string \<times> pyval) list" where
  "build_metadata now outputs =
     [(''total_ions'', PInt (int (length outputs))),
      (''successful_ions'', PInt (int (length (filter IonOutput.success outputs)))),
      (''failed_ions'',
         PInt (int (length (filter (\<lambda>x. \<not> IonOutput.success x) outputs)))),
      (''total_execution_time_ms'',
         PInt (sum_list (map IonOutput.execution_time_ms outputs))),
      (''average_execution_time_ms'',
         if outputs \<noteq> []
         then PFloat (of_int (sum_list (map IonOutput.execution_time_ms outputs))
                        / of_nat (length outputs))
         else PInt 0),
      (''timestamp'', PTime now),
      (''ions_used'', PList (map (\<lambda>x. PStr (IonOutput.ion_name x)) outputs))]"

text \<open>\<open>_format_generic_output\<close>. \<open>json.dumps\<close> is a parameter: it returns the text or
  raises.\<close>

definition str_int :: "int \<Rightarrow> string" where
  "str_int i = (if i < 0 then ''-'' @ decimal (nat (- i)) else decimal (nat i))"

definition join_lines :: "string list \<Rightarrow> string" where
  "join_lines ls = (case ls of [] \<Rightarrow> [] | l # rest \<Rightarrow> l @ concat (map (\<lambda>x. CHR 0x0A # x) rest))"

definition format_generic_output :: "(pyval \<Rightarrow> exn + string) \<Rightarrow> IonOutput \<Rightarrow> exn + string" where
  "format_generic_output json_dumps output =
     (let ls = [''Ion: '' @ IonOutput.ion_name output,
                ''Description: '' @ IonOutput.description output,
                ''Success: '' @ (if IonOutput.success output then ''True'' else ''False''),
                ''Execution time: '' @ str_int (IonOutput.execution_time_ms output) @ ''ms''];
          ls = (case IonOutput.error output of
                  None \<Rightarrow> ls
                | Some e \<Rightarrow> if e \<noteq> [] then ls @ [''Error: '' @ e] else ls)
      in if truthy (IonOutput.result output)
         then (case json_dumps (IonOutput.result output) of
                 Inl e \<Rightarrow> Inl e
               | Inr result_str \<Rightarrow>
                   Inr (join_lines
                     (ls @ ['''', ''Result:'',
                            if length result_str > 500
                            then take 500 result_str @ [CHR 0x0A] @ ''... (truncated)''
                            else result_str])))
         else Inr (join_lines ls))"

text \<open>
  What a fusion function computes from the outputs: title, summary, sections and
  recommendations. \<open>_synthesize_generic\<close> is the fallback of \<open>synthesize\<close>; the loop that
  builds its sections is \<open>generic_sections\<close>.
\<close>

type_synonym fused = "string \<times> string \<times> (string \<times> pyval) list list \<times> string list"

fun generic_sections ::
  "(pyval \<Rightarrow> exn + string) \<Rightarrow> IonOutput list \<Rightarrow> exn + (string \<times> pyval) list list" where
  "generic_sections json_dumps [] = Inr []"
| "generic_sections json_dumps (output # outputs) =
     (let status = (if IonOutput.success output then ''[OK]'' else ''[XX]'')
      in case format_generic_output json_dumps output of
           Inl e \<Rightarrow> Inl e
         | Inr content \<Rightarrow>
             (case generic_sections json_dumps outputs of
                Inl e \<Rightarrow> Inl e
              | Inr rest \<Rightarrow>
                  Inr ([(''title'', PStr (status @ '' '' @ IonOutput.ion_name output)),
                        (''icon'', PStr status),
                        (''content'', PStr content),
                        (''priority'',
                           PStr (if IonOutput.success output then ''medium'' else ''high'')),
                        (''ion'', PStr (IonOutput.ion_name output))] # rest)))"

definition synthesize_generic :: "(pyval \<Rightarrow> exn + string) \<Rightarrow> IonOutput list \<Rightarrow> exn + fused" where
  "synthesize_generic json_dumps outputs =
     (let successful = filter IonOutput.success outputs;
          failed = filter (\<lambda>x. \<not> IonOutput.success x) outputs;
          summary = ''Completed '' @ decimal (length successful) @ ''/''
                      @ decimal (length outputs) @ '' Ion executions successfully.''
      in case generic_sections json_dumps outputs of
           Inl e \<Rightarrow> Inl e
         | Inr sections \<Rightarrow>
             Inr (''Task Execution Report'', summary, sections,
                  if failed \<noteq> []
                  then [''HIGH: '' @ decimal (length failed) @ '' Ion(s) failed - review errors'']
                  else []))"

text \<open>The dataclass \<open>SynthesizedReport\<close>.\<close>

record SynthesizedReport =
  title :: string
  summary :: string
  sections :: "(string \<times> pyval) list list"
  metadata :: "(string \<times> pyval) list"
  raw_outputs :: "IonOutput list"
  recommendations :: "string list"
  generated_at :: int

text \<open>
  \<open>OutputSynthesizer.synthesize\<close>. Every fusion function of the source ends in
  \<open>SynthesizedReport(title=..., summary=..., sections=..., metadata=self._build_metadata(outputs),
  raw_outputs=outputs, recommendations=...)\<close>, and \<open>generated_at\<close> takes its default
  \<open>datetime.now()\<close>. The pattern-specific fusion functions of the table
  \<open>self.synthesizers\<close> are a parameter, each giving the four fields it computes or
  raising; the fallback \<open>_synthesize_generic\<close> is modelled. \<open>clock 0\<close> and \<open>clock 1\<close>
  are the two readings of the clock during the call.
\<close>

definition synthesize ::
  "(string \<rightharpoonup> (IonOutput list \<Rightarrow> exn + fused)) \<Rightarrow> (pyval \<Rightarrow> exn + string) \<Rightarrow> (nat \<Rightarrow> int)
     \<Rightarrow> string \<Rightarrow> IonOutput list \<Rightarrow> exn + SynthesizedReport" where
  "synthesize synthesizers json_dumps clock task_pattern ion_outputs =
     (let synthesize_fn = (case synthesizers task_pattern of
                             Some fn \<Rightarrow> fn
                           | None \<Rightarrow> synthesize_generic json_dumps)
      in case synthesize_fn ion_outputs of
           Inl e \<Rightarrow> Inl e
         | Inr (t, s, secs, recs) \<Rightarrow>
             Inr \<lparr>title = t, summary = s, sections = secs,
                  metadata = build_metadata (clock 0) ion_outputs,
                  raw_outputs = ion_outputs, recommendations = recs,
                  generated_at = clock 1\<rparr>)"

text \<open>A report with the two clock readings of another call put in.\<close>

definition restamp :: "(nat \<Rightarrow> int) \<Rightarrow> SynthesizedReport \<Rightarrow> SynthesizedReport" where
  "restamp clock report =
     report\<lparr>metadata :=
               map (\<lambda>(k, v). if k = ''timestamp'' then (k, PTime (clock 0)) else (k, v))
                 (metadata report),
            generated_at := clock 1\<rparr>"

section \<open>The feedback store (ada\_orchestrator.py, FeedbackLoop)\<close>

text \<open>
  The dataclass \<open>FeedbackEntry\<close> (its field \<open>notes\<close> is \<open>notes_text\<close> here) and
  \<open>FeedbackLoop.record\<close>, which appends an entry to \<open>self.entries\<close> and mirrors it
  to a file. The state of the orchestrator that subtask execution can reach is the list
  of feedback entries and the routes of the router.
\<close>

record FeedbackEntry =
  timestamp :: int
  task_id :: string
  content_type :: string
  agents_used :: "string list"
  success :: bool
  execution_time_ms :: real
  user_rating :: "int option"
  notes_text :: "string option"

record ADAOrchestrator =
  entries :: "FeedbackEntry list"
  routes :: "AgentRoute list"

text \<open>
  The bridge to the executors, \<open>self.ada.ion_bridge\<close>, is defined outside the modules
  modelled here: its two operations are parameters, each returning or raising.
\<close>

record IonBridge =
  is_real_ion :: "string \<Rightarrow> exn + bool"
  execute_ion :: "string \<Rightarrow> string \<Rightarrow> int \<Rightarrow> (string \<rightharpoonup> pyval) \<Rightarrow> exn + (string \<times> pyval) list"

definition record_feedback ::
  "int \<Rightarrow> FeedbackEntry list \<Rightarrow> string \<Rightarrow> string \<Rightarrow> string list \<Rightarrow> bool \<Rightarrow> real
     \<Rightarrow> FeedbackEntry list" where
  "record_feedback now feedback tid ctype agents ok time_ms =
     feedback @ [\<lparr>timestamp = now, task_id = tid, content_type = ctype,
                   agents_used = agents, success = ok, execution_time_ms = time_ms,
                   user_rating = None, notes_text = None\<rparr>]"

section \<open>The execution coordinator (ada\_coordinator.py, ADACoordinator)\<close>

text \<open>\<open>ADACoordinator.ION_NAME_MAP\<close> and \<open>_resolve_ion_name\<close>.\<close>

definition ION_NAME_MAP :: "(string \<times> string) list" where
  "ION_NAME_MAP =
     [(''duplicate-detector'', ''duplicate-detector-ion''),
      (''dead-code-eliminator'', ''dead-code-eliminator-ion''),
      (''code-grouper'', ''code-grouper-ion''),
      (''refactor-planner'', ''refactor-planner-ion''),
      (''content-fetcher'', ''content-fetcher-ion''),
      (''context-builder'', ''context-builder-ion''),
      (''quiz-generator'', ''quiz-generator-ion'')]"

definition resolve_ion_name :: "string \<Rightarrow> string" where
  "resolve_ion_name ion = (case map_of ION_NAME_MAP ion of Some actual \<Rightarrow> actual | None \<Rightarrow> ion)"

text \<open>\<open>dict.get(key, default)\<close>, \<open>int(x)\<close> on a float (truncation towards zero), and
  \<open>(now - start_time).total_seconds() * 1000\<close>.\<close>

definition dict_get :: "(string \<times> pyval) list \<Rightarrow> string \<Rightarrow> pyval \<Rightarrow> pyval" where
  "dict_get d k dflt = (case map_of d k of Some v \<Rightarrow> v | None \<Rightarrow> dflt)"

definition py_int :: "real \<Rightarrow> int" where
  "py_int x = (if 0 \<le> x then \<lfloor>x\<rfloor> else \<lceil>x\<rceil>)"

definition elapsed_ms :: "int \<Rightarrow> int \<Rightarrow> real" where
  "elapsed_ms start_time now = of_int (now - start_time) / 1000"

text \<open>The \<open>IonOutput\<close> built from a caught exception.\<close>

definition exception_result ::
  "'p SubTask \<Rightarrow> exn \<Rightarrow> int \<Rightarrow> int \<Rightarrow> IonOutput" where
  "exception_result subtask e time_ms now =
     (case e of Exception msg \<Rightarrow>
        \<lparr>ion_name = SubTask.ion_name subtask, description = SubTask.description subtask,
         success = False, result = PDict [(''error'', PStr msg)],
         execution_time_ms = time_ms, timestamp = now, error = Some msg\<rparr>)"

text \<open>
  \<open>ADACoordinator._execute_subtask\<close>, with tracing and console output off
  (\<open>trace_list = None\<close>, \<open>verbose = False\<close>, the defaults of \<open>execute\<close>). The body is
  one \<open>try\<close> block whose handler builds the failed output. \<open>clock k\<close> is the k-th
  reading of the clock during the call, and \<open>str\<close> formats the float in the task
  identity of the feedback entry.
\<close>

definition execute_subtask ::
  "IonBridge \<Rightarrow> (real \<Rightarrow> string) \<Rightarrow> (nat \<Rightarrow> int) \<Rightarrow> ADAOrchestrator \<Rightarrow> 'p SubTask
     \<Rightarrow> (string \<rightharpoonup> pyval) \<Rightarrow> IonOutput \<times> ADAOrchestrator" where
  "execute_subtask ion_bridge str clock ada subtask previous_results =
     (let start_time = clock 0;
          resolved_ion = resolve_ion_name (SubTask.ion_name subtask)
      in case is_real_ion ion_bridge resolved_ion of
           Inl e \<Rightarrow>
             (exception_result subtask e (py_int (elapsed_ms start_time (clock 1))) (clock 2),
              ada)
         | Inr True \<Rightarrow>
             (case execute_ion ion_bridge resolved_ion (SubTask.description subtask) 30
                     previous_results of
                Inl e \<Rightarrow>
                  (exception_result subtask e (py_int (elapsed_ms start_time (clock 1)))
                     (clock 2),
                   ada)
              | Inr res \<Rightarrow>
                  (let execution_time = elapsed_ms start_time (clock 1);
                       ok = truthy (dict_get res ''success'' (PBool False));
                       ada' = ada\<lparr>entries :=
                         record_feedback (clock 2) (entries ada)
                           (''coord-'' @ SubTask.ion_name subtask @ ''-''
                              @ str (of_int start_time / 1000000))
                           (SubTask.ion_name subtask) [SubTask.ion_name subtask]
                           ok execution_time\<rparr>
                   in (\<lparr>ion_name = SubTask.ion_name subtask,
                         description = SubTask.description subtask,
                         success = ok,
                         result = dict_get res ''result'' (PDict res),
                         execution_time_ms = py_int execution_time,
                         timestamp = clock 3, error = None\<rparr>,
                       ada')))
         | Inr False \<Rightarrow>
             (\<lparr>ion_name = SubTask.ion_name subtask,
               description = SubTask.description subtask,
               success = True,
               result = PDict [(''simulated'', PBool True),
                               (''message'', PStr (''Simulated '' @ SubTask.ion_name subtask
                                                    @ '' execution''))],
               execution_time_ms = 50, timestamp = clock 1, error = None\<rparr>,
              ada))"

text \<open>The dataclass \<open>TaskPlan\<close> and the values of the enumeration \<open>TaskPattern\<close>.\<close>

record 'p TaskPlan =
  original_request :: string
  pattern :: TaskPattern
  subtasks :: "'p SubTask list"
  estimated_time_seconds :: int
  requires_synthesis :: bool
  parallel_groups :: "string list list"

fun pattern_value :: "TaskPattern \<Rightarrow> string" where
  "pattern_value CODEBASE_ANALYSIS = ''analyze_codebase''"
| "pattern_value CONTENT_RESEARCH = ''research_topic''"
| "pattern_value PROJECT_STATUS = ''project_status''"
| "pattern_value CODE_CLEANUP = ''code_cleanup''"
| "pattern_value LEARNING_MATERIALS = ''create_learning''"
| "pattern_value QUALITY_ASSESSMENT = ''assess_quality''"
| "pattern_value REFACTORING = ''refactor_code''"
| "pattern_value DOCUMENTATION = ''generate_docs''"
| "pattern_value DUPLICATE_DETECTION = ''find_duplicates''"
| "pattern_value DEAD_CODE_ANALYSIS = ''find_dead_code''"
| "pattern_value CODE_ORGANIZATION = ''organize_code''"
| "pattern_value CONTENT_EXTRACTION = ''extract_content''"
| "pattern_value QUIZ_GENERATION = ''generate_quiz''"
| "pattern_value CUSTOM = ''custom''"

text \<open>\<open>ExecutionStrategy.optimize_wave\<close>: \<open>sorted\<close> is stable.\<close>

definition optimize_wave :: "'p SubTask list \<Rightarrow> 'p SubTask list" where
  "optimize_wave wave = sort_key SubTask.priority wave"

text \<open>
  One awaited call of \<open>_execute_subtask\<close> within a wave: the seconds it takes, and the
  output it returns or the exception it raises.
\<close>

type_synonym 'p subtask_run =
  "'p SubTask \<Rightarrow> (string \<rightharpoonup> pyval) \<Rightarrow> nat \<Rightarrow> real \<times> (exn + IonOutput)"

text \<open>
  \<open>ADACoordinator._execute_wave\<close>, tracing off: \<open>asyncio.gather\<close> with
  \<open>return_exceptions=True\<close> ends when every subtask has ended, so the wave is modelled by
  the latencies of its subtasks and the list of their outputs. \<open>clock wave_num i\<close> is the
  clock reading when the coordinator builds an output for position \<open>i\<close> of a wave.
\<close>

definition execute_wave ::
  "'p subtask_run \<Rightarrow> (nat \<Rightarrow> nat \<Rightarrow> int) \<Rightarrow> 'p SubTask list \<Rightarrow> nat \<Rightarrow> (string \<rightharpoonup> pyval)
     \<Rightarrow> real list \<times> IonOutput list" where
  "execute_wave run clock wave wave_num previous_results =
     (let wave = optimize_wave wave;
          results = map (\<lambda>subtask. run subtask previous_results wave_num) wave
      in (map fst results,
          map (\<lambda>(i, subtask, res).
                 case snd res of
                   Inl e \<Rightarrow> exception_result subtask e 0 (clock wave_num i)
                 | Inr output \<Rightarrow> output)
            (zip [0..<length wave] (zip wave results))))"

text \<open>
  \<open>asyncio.wait_for(..., timeout)\<close> around the wave: the outputs when every subtask
  ended within the budget, \<open>TimeoutError\<close> (\<open>None\<close>) otherwise.
\<close>

definition wait_for :: "real \<Rightarrow> real list \<times> 'a \<Rightarrow> 'a option" where
  "wait_for timeout awaited =
     (if list_all (\<lambda>latency. latency \<le> timeout) (fst awaited) then Some (snd awaited)
      else None)"

text \<open>\<open>output.ion_name.replace("-ion", "")\<close> and the loop that stores the results of the
  successful outputs of a wave for the later waves.\<close>

fun base_name_of :: "string \<Rightarrow> string" where
  "base_name_of (c1 # c2 # c3 # c4 # cs) =
     (if [c1, c2, c3, c4] = ''-ion'' then base_name_of cs
      else c1 # base_name_of (c2 # c3 # c4 # cs))"
| "base_name_of cs = cs"

fun store_results :: "IonOutput list \<Rightarrow> (string \<rightharpoonup> pyval) \<Rightarrow> (string \<rightharpoonup> pyval)" where
  "store_results [] previous_wave_results = previous_wave_results"
| "store_results (output # wave_outputs) previous_wave_results =
     store_results wave_outputs
       (if IonOutput.success output
        then previous_wave_results(base_name_of (IonOutput.ion_name output)
               \<mapsto> IonOutput.result output)
        else previous_wave_results)"

text \<open>
  The loop \<open>for wave_num, wave in enumerate(execution_waves, 1)\<close> of \<open>execute\<close>, with
  its handler of \<open>asyncio.TimeoutError\<close>.
\<close>

definition timeout_result :: "'p SubTask \<Rightarrow> int \<Rightarrow> IonOutput" where
  "timeout_result subtask now =
     \<lparr>ion_name = SubTask.ion_name subtask, description = SubTask.description subtask,
      success = False, result = PDict [(''error'', PStr ''Timeout'')],
      execution_time_ms = 0, timestamp = now, error = Some ''Execution timeout''\<rparr>"

fun run_waves ::
  "'p subtask_run \<Rightarrow> (nat \<Rightarrow> nat \<Rightarrow> int) \<Rightarrow> real \<Rightarrow> nat \<Rightarrow> 'p SubTask list list
     \<Rightarrow> IonOutput list \<Rightarrow> (string \<rightharpoonup> pyval) \<Rightarrow> IonOutput list" where
  "run_waves run clock timeout wave_num [] all_outputs previous_wave_results = all_outputs"
| "run_waves run clock timeout wave_num (wave # waves) all_outputs previous_wave_results =
     (case wait_for timeout (execute_wave run clock wave wave_num previous_wave_results) of
        Some wave_outputs \<Rightarrow>
          run_waves run clock timeout (Suc wave_num) waves (all_outputs @ wave_outputs)
            (store_results wave_outputs previous_wave_results)
      | None \<Rightarrow>
          run_waves run clock timeout (Suc wave_num) waves
            (all_outputs
               @ map (\<lambda>(i, subtask). timeout_result subtask (clock wave_num i))
                   (zip [0..<length wave] wave))
            previous_wave_results)"

text \<open>The report that the handler \<open>except Exception as e\<close> of \<open>execute\<close> returns.\<close>

definition error_report :: "exn \<Rightarrow> string \<Rightarrow> real \<Rightarrow> int \<Rightarrow> SynthesizedReport" where
  "error_report e task duration_seconds now =
     (case e of Exception msg \<Rightarrow>
        \<lparr>title = ''Execution Error'',
         summary = ''Task execution failed: '' @ msg,
         sections = [[(''title'', PStr ''Error Details''), (''icon'', PStr ''[ERR]''),
                      (''content'', PStr msg), (''priority'', PStr ''high'')]],
         metadata = [(''error'', PStr msg), (''task'', PStr task),
                     (''duration_seconds'', PFloat duration_seconds)],
         raw_outputs = [],
         recommendations = [''Review the error and retry''],
         generated_at = now\<rparr>)"

text \<open>
  \<open>ADACoordinator.execute\<close>, with tracing and console output off. The decomposer
  (classifier and graph builder) is a parameter that returns a plan or raises, as are the
  executions of the subtasks and the parameters of \<open>synthesize\<close>. \<open>clock 0 0\<close>,
  \<open>clock 0 1\<close> and \<open>clock 0 2\<close> are the clock readings at the start, in the handler
  and at the creation of the error report, \<open>clock 0 3\<close> and \<open>clock 0 4\<close> those of
  the synthesizer. The metrics and the history record, which the returned report does
  not depend on, are left out.
\<close>

fun str_of_error :: "error \<Rightarrow> exn" where
  "str_of_error ValueError = Exception ''list.remove(x): x not in list''"
| "str_of_error StopIteration = Exception []"

definition execute ::
  "(string \<Rightarrow> exn + 'p TaskPlan) \<Rightarrow> 'p subtask_run
     \<Rightarrow> (string \<rightharpoonup> (IonOutput list \<Rightarrow> exn + fused)) \<Rightarrow> (pyval \<Rightarrow> exn + string)
     \<Rightarrow> (nat \<Rightarrow> nat \<Rightarrow> int) \<Rightarrow> string \<Rightarrow> int \<Rightarrow> SynthesizedReport" where
  "execute decompose run synthesizers json_dumps clock task timeout_seconds =
     (let start_time = clock 0 0;
          failed = (\<lambda>e. error_report e task
                      (of_int (clock 0 1 - start_time) / 1000000) (clock 0 2))
      in case decompose task of
           Inl e \<Rightarrow> failed e
         | Inr task_plan \<Rightarrow>
             (case create_execution_plan (subtasks task_plan) of
                Inl err \<Rightarrow> failed (str_of_error err)
              | Inr (execution_waves, out) \<Rightarrow>
                  (let all_outputs =
                         run_waves run clock
                           (of_int timeout_seconds / of_nat (length execution_waves))
                           1 execution_waves [] Map.empty
                   in case synthesize synthesizers json_dumps (\<lambda>k. clock 0 (3 + k))
                             (pattern_value (pattern task_plan)) all_outputs of
                        Inl e \<Rightarrow> failed e
                      | Inr report \<Rightarrow> report)))"

subsection \<open>Example environments\<close>

text \<open>A bridge with no real executor, one whose executors report failure, and an
  orchestrator with no feedback and the default routes.\<close>

definition simulated_bridge :: IonBridge where
  "simulated_bridge =
     \<lparr>is_real_ion = (\<lambda>ion. Inr False), execute_ion = (\<lambda>ion d t p. Inr [])\<rparr>"

definition failing_bridge :: IonBridge where
  "failing_bridge =
     \<lparr>is_real_ion = (\<lambda>ion. Inr True),
      execute_ion = (\<lambda>ion d t p. Inr [(''success'', PBool False), (''error'', PStr ''exit 1'')])\<rparr>"

definition fresh_ada :: ADAOrchestrator where
  "fresh_ada = \<lparr>entries = [], routes = default_routes\<rparr>"

text \<open>Executors that succeed after one second, except the one named slow, which takes
  twenty.\<close>

definition two_speed_run :: "(string \<times> pyval) list subtask_run" where
  "two_speed_run subtask previous_results wave_num =
     (if SubTask.ion_name subtask = ''slow'' then 20 else 1,
      Inr \<lparr>ion_name = SubTask.ion_name subtask,
           description = SubTask.description subtask,
           success = True, result = PDict [(''done'', PBool True)],
           execution_time_ms = (if SubTask.ion_name subtask = ''slow'' then 20000 else 1000),
           timestamp = 0, error = None\<rparr>)"

subsection \<open>Feedback\<close>

text \<open>
  C4, as stated, fails: a simulated execution leaves the feedback store empty, and a
  failure reported by the executor of a registered route leaves the routes as they were,
  where the score update would have changed them.
\<close>

theorem execute_subtask_not_forwarded:
  "entries (snd (execute_subtask simulated_bridge (\<lambda>x. []) (\<lambda>k. int k) fresh_ada
             (mk_subtask ''general_001'' ''general'' []) Map.empty)) = []
   \<and> routes (snd (execute_subtask failing_bridge (\<lambda>x. []) (\<lambda>k. int k) fresh_ada
             (mk_subtask ''duplicate-detector_001'' ''duplicate-detector'' []) Map.empty))
       = default_routes
   \<and> update_success_rate default_routes ''duplicate-detector-ion'' False \<noteq> default_routes"
  by (simp add: execute_subtask_def simulated_bridge_def failing_bridge_def fresh_ada_def
        mk_subtask_def resolve_ion_name_def ION_NAME_MAP_def Let_def record_feedback_def
        default_routes_def)

text \<open>
  C4, amended. An executor invocation that returns, whether it reports success or
  failure, appends exactly one feedback entry, carrying the success flag of the output.
  A simulated execution appends nothing. In no case does subtask execution change a
  route: the router's score update is not called.
\<close>

theorem execute_subtask_feedback:
  "case execute_subtask ion_bridge str clock ada subtask previous_results of
     (output, ada') \<Rightarrow>
       routes ada' = routes ada
       \<and> (is_real_ion ion_bridge (resolve_ion_name (SubTask.ion_name subtask)) = Inr False
            \<longrightarrow> IonOutput.success output \<and> entries ada' = entries ada)
       \<and> (\<forall>res.
             is_real_ion ion_bridge (resolve_ion_name (SubTask.ion_name subtask)) = Inr True
             \<and> execute_ion ion_bridge (resolve_ion_name (SubTask.ion_name subtask))
                   (SubTask.description subtask) 30 previous_results = Inr res
             \<longrightarrow> (\<exists>entry. entries ada' = entries ada @ [entry]
                    \<and> FeedbackEntry.success entry = IonOutput.success output
                    \<and> agents_used entry = [SubTask.ion_name subtask]
                    \<and> IonOutput.success output
                        = truthy (dict_get res ''success'' (PBool False))))"
  by (auto simp: execute_subtask_def Let_def record_feedback_def
        split: sum.splits bool.splits)

theorem execute_subtask_feedback_witness:
  "is_real_ion simulated_bridge (resolve_ion_name ''general'') = Inr False
   \<and> entries (snd (execute_subtask simulated_bridge (\<lambda>x. []) (\<lambda>k. int k) fresh_ada
             (mk_subtask ''general_001'' ''general'' []) Map.empty)) = entries fresh_ada
   \<and> is_real_ion failing_bridge (resolve_ion_name ''duplicate-detector'') = Inr True
   \<and> execute_ion failing_bridge (resolve_ion_name ''duplicate-detector'') ''work'' 30 Map.empty
       = Inr [(''success'', PBool False), (''error'', PStr ''exit 1'')]
   \<and> (\<exists>entry.
         entries (snd (execute_subtask failing_bridge (\<lambda>x. []) (\<lambda>k. int k) fresh_ada
             (mk_subtask ''duplicate-detector_001'' ''duplicate-detector'' []) Map.empty))
           = entries fresh_ada @ [entry]
         \<and> \<not> FeedbackEntry.success entry
         \<and> agents_used entry = [''duplicate-detector''])
   \<and> routes (snd (execute_subtask failing_bridge (\<lambda>x. []) (\<lambda>k. int k) fresh_ada
             (mk_subtask ''duplicate-detector_001'' ''duplicate-detector'' []) Map.empty))
       = routes fresh_ada"
proof -
  have sim: "is_real_ion simulated_bridge (resolve_ion_name ''general'') = Inr False"
    by (simp add: simulated_bridge_def)
  have real: "is_real_ion failing_bridge (resolve_ion_name ''duplicate-detector'') = Inr True"
    by (simp add: failing_bridge_def)
  have ran: "execute_ion failing_bridge (resolve_ion_name ''duplicate-detector'') ''work'' 30
      Map.empty = Inr [(''success'', PBool False), (''error'', PStr ''exit 1'')]"
    by (simp add: failing_bridge_def)
  have n1: "SubTask.ion_name (mk_subtask ''general_001'' ''general'' []) = ''general''"
    and n2: "SubTask.ion_name (mk_subtask ''duplicate-detector_001'' ''duplicate-detector'' [])
               = ''duplicate-detector''"
    and d2: "SubTask.description (mk_subtask ''duplicate-detector_001'' ''duplicate-detector'' [])
               = ''work''"
    by (simp_all add: mk_subtask_def)
  from execute_subtask_feedback
    [where ion_bridge = simulated_bridge and str = "\<lambda>x. []" and clock = "\<lambda>k. int k"
       and ada = fresh_ada and subtask = "mk_subtask ''general_001'' ''general'' []"
       and previous_results = Map.empty] sim n1
  have a: "entries (snd (execute_subtask simulated_bridge (\<lambda>x. []) (\<lambda>k. int k) fresh_ada
             (mk_subtask ''general_001'' ''general'' []) Map.empty)) = entries fresh_ada"
    by (simp add: split_beta)
  from execute_subtask_feedback
    [where ion_bridge = failing_bridge and str = "\<lambda>x. []" and clock = "\<lambda>k. int k"
       and ada = fresh_ada
       and subtask = "mk_subtask ''duplicate-detector_001'' ''duplicate-detector'' []"
       and previous_results = Map.empty]
    real ran n2 d2
  have b: "(\<exists>entry.
         entries (snd (execute_subtask failing_bridge (\<lambda>x. []) (\<lambda>k. int k) fresh_ada
             (mk_subtask ''duplicate-detector_001'' ''duplicate-detector'' []) Map.empty))
           = entries fresh_ada @ [entry]
         \<and> \<not> FeedbackEntry.success entry
         \<and> agents_used entry = [''duplicate-detector''])
   \<and> routes (snd (execute_subtask failing_bridge (\<lambda>x. []) (\<lambda>k. int k) fresh_ada
             (mk_subtask ''duplicate-detector_001'' ''duplicate-detector'' []) Map.empty))
       = routes fresh_ada"
    by (auto simp: split_beta dict_get_def)
  from sim real ran a b show ?thesis by blast
qed

subsection \<open>Wave timeouts\<close>

text \<open>
  C2. A wave of two subtasks with a budget of ten seconds: fast ends after one second
  with success, slow needs twenty. The handler of the timeout records a failed output for
  every subtask of the wave, so the result that fast had is replaced by a timeout
  failure.
\<close>

theorem run_waves_timeout_replaces_finished:
  "run_waves two_speed_run (\<lambda>wave_num i. 0) (10 / 1) 1
     [[mk_subtask ''fast_001'' ''fast'' [], mk_subtask ''slow_002'' ''slow'' []]] [] Map.empty
   = [\<lparr>ion_name = ''fast'', description = ''work'', success = False,
        result = PDict [(''error'', PStr ''Timeout'')], execution_time_ms = 0,
        timestamp = 0, error = Some ''Execution timeout''\<rparr>,
      \<lparr>ion_name = ''slow'', description = ''work'', success = False,
        result = PDict [(''error'', PStr ''Timeout'')], execution_time_ms = 0,
        timestamp = 0, error = Some ''Execution timeout''\<rparr>]"
  by (simp add: execute_wave_def wait_for_def optimize_wave_def two_speed_run_def
        timeout_result_def mk_subtask_def Let_def)

text \<open>With a budget of thirty seconds both keep their results.\<close>

lemma run_waves_within_budget:
  "run_waves two_speed_run (\<lambda>wave_num i. 0) (30 / 1) 1
     [[mk_subtask ''fast_001'' ''fast'' [], mk_subtask ''slow_002'' ''slow'' []]] [] Map.empty
   = [\<lparr>ion_name = ''fast'', description = ''work'', success = True,
        result = PDict [(''done'', PBool True)], execution_time_ms = 1000,
        timestamp = 0, error = None\<rparr>,
      \<lparr>ion_name = ''slow'', description = ''work'', success = True,
        result = PDict [(''done'', PBool True)], execution_time_ms = 20000,
        timestamp = 0, error = None\<rparr>]"
  by (simp add: execute_wave_def wait_for_def optimize_wave_def two_speed_run_def
        timeout_result_def mk_subtask_def Let_def)

subsection \<open>Errors of the pipeline\<close>

lemma create_execution_plan_returns:
  "\<exists>waves out. create_execution_plan xs = Inr (waves, out)"
  using plan_loop_mset [of "{}" xs "[]" "[]"]
  by (cases "xs = []") (auto simp: create_execution_plan_def)

text \<open>
  C8. \<open>execute\<close> always returns a report. When the decomposer (classifier and graph
  builder) raises, and when the synthesizer raises, the result is the error report built
  from the exception; wave scheduling returns on every plan; otherwise the result is
  the synthesizer's report. The error report has the title, a summary with the message,
  one section with the error details, metadata holding the error and the task, no raw
  outputs and one recommendation.
\<close>

theorem execute_error_report:
  "(case decompose task of
      Inl e \<Rightarrow>
        execute decompose run synthesizers json_dumps clock task timeout_seconds
          = error_report e task (of_int (clock 0 1 - clock 0 0) / 1000000) (clock 0 2)
    | Inr task_plan \<Rightarrow>
        (\<exists>execution_waves out.
           create_execution_plan (subtasks task_plan) = Inr (execution_waves, out)
           \<and> (case synthesize synthesizers json_dumps (\<lambda>k. clock 0 (3 + k))
                      (pattern_value (pattern task_plan))
                      (run_waves run clock
                         (of_int timeout_seconds / of_nat (length execution_waves))
                         1 execution_waves [] Map.empty) of
                 Inl e \<Rightarrow>
                   execute decompose run synthesizers json_dumps clock task timeout_seconds
                     = error_report e task (of_int (clock 0 1 - clock 0 0) / 1000000)
                         (clock 0 2)
               | Inr report \<Rightarrow>
                   execute decompose run synthesizers json_dumps clock task timeout_seconds = report)))
   \<and> title (error_report (Exception msg) task duration now) = ''Execution Error''
   \<and> summary (error_report (Exception msg) task duration now)
       = ''Task execution failed: '' @ msg
   \<and> sections (error_report (Exception msg) task duration now)
       = [[(''title'', PStr ''Error Details''), (''icon'', PStr ''[ERR]''),
           (''content'', PStr msg), (''priority'', PStr ''high'')]]
   \<and> map fst (metadata (error_report (Exception msg) task duration now))
       = [''error'', ''task'', ''duration_seconds'']
   \<and> map_of (metadata (error_report (Exception msg) task duration now)) ''error''
       = Some (PStr msg)
   \<and> raw_outputs (error_report (Exception msg) task duration now) = []
   \<and> recommendations (error_report (Exception msg) task duration now)
       = [''Review the error and retry'']"
proof -
  have wf: "title (error_report (Exception msg) task duration now) = ''Execution Error''
   \<and> summary (error_report (Exception msg) task duration now)
       = ''Task execution failed: '' @ msg
   \<and> sections (error_report (Exception msg) task duration now)
       = [[(''title'', PStr ''Error Details''), (''icon'', PStr ''[ERR]''),
           (''content'', PStr msg), (''priority'', PStr ''high'')]]
   \<and> map fst (metadata (error_report (Exception msg) task duration now))
       = [''error'', ''task'', ''duration_seconds'']
   \<and> map_of (metadata (error_report (Exception msg) task duration now)) ''error''
       = Some (PStr msg)
   \<and> raw_outputs (error_report (Exception msg) task duration now) = []
   \<and> recommendations (error_report (Exception msg) task duration now)
       = [''Review the error and retry'']"
    by (simp add: error_report_def)
  have run: "case decompose task of
      Inl e \<Rightarrow>
        execute decompose run synthesizers json_dumps clock task timeout_seconds
          = error_report e task (of_int (clock 0 1 - clock 0 0) / 1000000) (clock 0 2)
    | Inr task_plan \<Rightarrow>
        (\<exists>execution_waves out.
           create_execution_plan (subtasks task_plan) = Inr (execution_waves, out)
           \<and> (case synthesize synthesizers json_dumps (\<lambda>k. clock 0 (3 + k))
                      (pattern_value (pattern task_plan))
                      (run_waves run clock
                         (of_int timeout_seconds / of_nat (length execution_waves))
                         1 execution_waves [] Map.empty) of
                 Inl e \<Rightarrow>
                   execute decompose run synthesizers json_dumps clock task timeout_seconds
                     = error_report e task (of_int (clock 0 1 - clock 0 0) / 1000000)
                         (clock 0 2)
               | Inr report \<Rightarrow>
                   execute decompose run synthesizers json_dumps clock task timeout_seconds = report))"
  proof (cases "decompose task")
    case (Inl e)
    then show ?thesis by (simp add: execute_def Let_def)
  next
    case (Inr task_plan)
    from create_execution_plan_returns [of "subtasks task_plan"]
    obtain execution_waves out where
      "create_execution_plan (subtasks task_plan) = Inr (execution_waves, out)"
      by blast
    with Inr show ?thesis
      by (auto simp: execute_def Let_def split: sum.splits)
  qed
  from run wf show ?thesis by blast
qed

subsection \<open>Synthesizing twice\<close>

text \<open>
  C9, as stated, fails: two calls on the same (empty) list of outputs at different times
  give different reports.
\<close>

theorem synthesize_twice_differs:
  "synthesize Map.empty (\<lambda>v. Inr ''{}'') (\<lambda>k. 0) ''custom'' []
     \<noteq> synthesize Map.empty (\<lambda>v. Inr ''{}'') (\<lambda>k. 1) ''custom'' []"
  by (simp add: synthesize_def synthesize_generic_def build_metadata_def Let_def)

text \<open>
  C9, amended. Two calls of \<open>synthesize\<close> with the same pattern and outputs either
  raise the same exception or return reports that agree in every field but the two that
  carry the time of the call: the report of one call is the report of the other with the
  metadata entry \<open>timestamp\<close> and \<open>generated_at\<close> set to its own clock readings. In
  particular the reports are equal when the clock readings are.
\<close>

theorem synthesize_differs_by_clock:
  "synthesize synthesizers json_dumps clock task_pattern ion_outputs
     = map_sum id (restamp clock)
         (synthesize synthesizers json_dumps clock' task_pattern ion_outputs)"
  by (auto simp: synthesize_def restamp_def build_metadata_def Let_def
        split: sum.splits option.splits)

end
